theory Spec2Isabelle
  imports Main "HOL-Library.AList"
begin

section \<open>JavaScript values, as far as the builder looks at them\<close>

text \<open>
  An object is its own keys with their values, in insertion order, and its prototype
  (\<open>JNull\<close> where the chain ends). The builder tests for a key with \<^verbatim>\<open>_.has\<close>, which
  looks at the own keys, and reads with \<^verbatim>\<open>x.k\<close>, which goes up the prototype chain, so
  the two are kept apart. Numbers are kept as integers (none is ever computed with), and a
  function is known by a label only, since the builder never calls one: it only asks
  whether a key is there. The members that strings, numbers, booleans and functions get
  from their built-in prototypes are not modelled; those of objects are data (see
  \<open>objectPrototype\<close> below).
\<close>

datatype jsval =
    JUndefined
  | JNull
  | JBool bool
  | JNum int
  | JStr string
  | JFun string
  | JObj "(string \<times> jsval) list" jsval

text \<open>The own keys of an object: what an object literal lists, what \<^verbatim>\<open>_.extend\<close> copies.\<close>

type_synonym dict = "(string \<times> jsval) list"

text \<open>
  An error value: \<^verbatim>\<open>new Error(message)\<close>, with the \<^verbatim>\<open>code\<close> that \<^verbatim>\<open>flaverr\<close>
  attaches. \<open>TypeError\<close> is the error the engine itself raises when a property of
  \<^verbatim>\<open>undefined\<close> or \<^verbatim>\<open>null\<close> is read (its message differs between engines and is left
  out); \<open>AssertionError\<close> is what \<^verbatim>\<open>assert\<close> throws.
\<close>

datatype js_error =
    TypeError
  | AssertionError string
  | Error (code: "string option") (message: string)

fun flaverr :: "string \<Rightarrow> js_error \<Rightarrow> js_error" where
  "flaverr c (Error _ m) = Error (Some c) m"
| "flaverr c e = e"

text \<open>Truthiness, as \<^verbatim>\<open>if (x)\<close> and \<^verbatim>\<open>!x\<close> read a value.\<close>

fun truthy :: "jsval \<Rightarrow> bool" where
  "truthy JUndefined = False"
| "truthy JNull = False"
| "truthy (JBool b) = b"
| "truthy (JNum n) = (n \<noteq> 0)"
| "truthy (JStr s) = (s \<noteq> [])"
| "truthy (JFun f) = True"
| "truthy (JObj own proto) = True"

text \<open>
  Reading \<^verbatim>\<open>x[k]\<close> (or \<^verbatim>\<open>x.k\<close>): a TypeError on \<^verbatim>\<open>undefined\<close> and \<^verbatim>\<open>null\<close>; on an
  object the own value if the key is an own one, otherwise what the prototype gives, and
  \<^verbatim>\<open>undefined\<close> where the chain ends.
\<close>

fun lookupChain :: "jsval \<Rightarrow> string \<Rightarrow> jsval" where
  "lookupChain (JObj own proto) k =
     (case map_of own k of Some v \<Rightarrow> v | None \<Rightarrow> lookupChain proto k)"
| "lookupChain v k = JUndefined"

fun getProp :: "jsval \<Rightarrow> string \<Rightarrow> js_error + jsval" where
  "getProp JUndefined k = Inl TypeError"
| "getProp JNull k = Inl TypeError"
| "getProp v k = Inr (lookupChain v k)"

definition nullish :: "jsval \<Rightarrow> bool" where
  "nullish v = (v = JUndefined \<or> v = JNull)"

text \<open>
  The lodash helpers the builder calls. \<^verbatim>\<open>_.has\<close> and \<^verbatim>\<open>_.keys\<close> look at own keys
  only.
\<close>

fun lodash_has :: "jsval \<Rightarrow> string \<Rightarrow> bool" where
  "lodash_has (JObj own proto) k = (k \<in> set (map fst own))"
| "lodash_has v k = False"

fun lodash_isObject :: "jsval \<Rightarrow> bool" where
  "lodash_isObject (JObj own proto) = True"
| "lodash_isObject (JFun f) = True"
| "lodash_isObject v = False"

fun lodash_keys :: "jsval \<Rightarrow> string list" where
  "lodash_keys (JObj own proto) = map fst own"
| "lodash_keys v = []"

definition lodash_difference :: "string list \<Rightarrow> string list \<Rightarrow> string list" where
  "lodash_difference xs ys = filter (\<lambda>x. x \<notin> set ys) xs"

text \<open>
  \<^verbatim>\<open>_.extend(object, source)\<close> assigns every own key of the source on the object, one
  after the other: a key the object has keeps its place and takes the new value, a new
  key is appended. (JavaScript enumerates keys that look like array indices before the
  others; the list keeps the order of assignment. Reading a key is the same in both, and
  nothing below depends on the order.)
\<close>

definition lodash_extend :: "dict \<Rightarrow> dict \<Rightarrow> dict" where
  "lodash_extend object source = foldl (\<lambda>obj (k, v). AList.update k v obj) object source"


section \<open>The registered datastore instance\<close>

text \<open>
  What \<^verbatim>\<open>buildRegisteredDatastoreInstance\<close> returns: the two public fields
  \<^verbatim>\<open>internalConfig\<close> and \<^verbatim>\<open>adapter\<close>, and the variables its four methods close over
  (\<^verbatim>\<open>datastoreName\<close>, the generic error and the three flags).
  The three flags are declared with \<^verbatim>\<open>var\<close> and assigned only when no generic error was
  found, so each is \<^verbatim>\<open>undefined\<close> (\<open>None\<close>) or a boolean.
\<close>

record rdi =
  internalConfig :: jsval
  rdi_adapter :: jsval
  rdi_datastoreName :: string
  genericDoesNotSupportDatastoreMethodsError :: "js_error option"
  isConnectable :: "bool option"
  isQueryable :: "bool option"
  isTransactional :: "bool option"

definition GENERIC_UNSUPPORTED_DSM_ERROR_MSG_SUFFIX :: string where
  \<open>GENERIC_UNSUPPORTED_DSM_ERROR_MSG_SUFFIX =
    ''If there is an older/ newer version of this adapter, try updating the semver range for this dependency '' @
    ''in your package.json file.  If you aren't sure, check the repo on GitHub, or contact the adapter's '' @
    ''maintainer.  If you *are* the maintainer of this adapter and need help, visit http://sailsjs.com/support.''\<close>

definition DOES_NOT_SUPPORT_DIRECT_ACCESS :: "string \<Rightarrow> string" where
  \<open>DOES_NOT_SUPPORT_DIRECT_ACCESS name =
    ''The adapter used by the '' @ name @ '' datastore does not support '' @
    ''direct access to its datastores (e.g. for leasing connections directly.)  ''\<close>

text \<open>The three messages of lines 74-80, 90-96 and 106-113.\<close>

definition datastoresNotExposedMsg :: "string \<Rightarrow> string" where
  \<open>datastoresNotExposedMsg name =
    DOES_NOT_SUPPORT_DIRECT_ACCESS name @
    ''It needs to expose its internal datastores in order for them to be used '' @
    ''outside the adapter.'' @ [CHR 0x0A] @
    GENERIC_UNSUPPORTED_DSM_ERROR_MSG_SUFFIX\<close>

definition missingReferenceMsg :: "string \<Rightarrow> string" where
  \<open>missingReferenceMsg name =
    DOES_NOT_SUPPORT_DIRECT_ACCESS name @
    ''The adapter's exposed `datastores` dictionary doesn't exist, is invalid, '' @
    ''or is missing the expected reference to this datastore.'' @ [CHR 0x0A] @
    GENERIC_UNSUPPORTED_DSM_ERROR_MSG_SUFFIX\<close>

definition incompleteReferenceMsg :: "string \<Rightarrow> string" where
  \<open>incompleteReferenceMsg name =
    DOES_NOT_SUPPORT_DIRECT_ACCESS name @
    ''The adapter's exposed `datastores` dictionary contains the expected reference '' @
    ''to this datastore, but that reference is missing one or more mandatory keys '' @
    ''(like `driver`, `manager`, or `config`).'' @ [CHR 0x0A] @
    GENERIC_UNSUPPORTED_DSM_ERROR_MSG_SUFFIX\<close>

text \<open>
  Lines 73-118: the generic error. The result is \<open>Inl\<close> when the block throws, otherwise
  the value left in \<^verbatim>\<open>genericDoesNotSupportDatastoreMethodsError\<close>.
\<close>

definition detectGenericError :: "string \<Rightarrow> jsval \<Rightarrow> js_error + js_error option" where
  "detectGenericError datastoreName adapter =
    (if lodash_has adapter ''datastores'' then
       Inr (Some (flaverr ''E_NOT_SUPPORTED'' (Error None (datastoresNotExposedMsg datastoreName))))
     else
       (case getProp adapter ''datastores'' of
          Inl e \<Rightarrow> Inl e
        | Inr datastores \<Rightarrow>
       (case getProp datastores datastoreName of
          Inl e \<Rightarrow> Inl e
        | Inr adapterDSEntry \<Rightarrow>
            if \<not> truthy adapterDSEntry then
              Inr (Some (flaverr ''E_NOT_SUPPORTED'' (Error None (missingReferenceMsg datastoreName))))
            else if \<not> lodash_has adapterDSEntry ''manager''
                  \<or> \<not> lodash_has adapterDSEntry ''driver''
                  \<or> \<not> lodash_has adapterDSEntry ''config'' then
              Inr (Some (flaverr ''E_NOT_SUPPORTED'' (Error None (incompleteReferenceMsg datastoreName))))
            else Inr None)))"

text \<open>Lines 141-164: the three interface layers, from the driver's method names.\<close>

definition interfaceLayers :: "string list \<Rightarrow> bool \<times> bool \<times> bool" where
  "interfaceLayers driverMethodNames =
    (let connectable =
           (length (lodash_difference
              [''createManager'', ''destroyManager'', ''getConnection'', ''releaseConnection'']
              driverMethodNames) = 0);
         queryable =
           (connectable \<and> length (lodash_difference
              [''sendNativeQuery'', ''compileStatement'', ''parseNativeQueryResult'',
               ''parseNativeQueryError'']
              driverMethodNames) = 0);
         transactional =
           (queryable \<and> length (lodash_difference
              [''beginTransaction'', ''commitTransaction'', ''rollbackTransaction'']
              driverMethodNames) = 0)
     in (connectable, queryable, transactional))"

text \<open>
  Lines 137-166: the flags stay \<^verbatim>\<open>undefined\<close> under a generic error; otherwise the
  driver is read again from the adapter, asserted to be an object, and probed.
\<close>

definition probeDriver ::
  "js_error option \<Rightarrow> string \<Rightarrow> jsval \<Rightarrow> js_error + (bool option \<times> bool option \<times> bool option)" where
  "probeDriver genericError datastoreName adapter =
    (case genericError of
       Some e \<Rightarrow> Inr (None, None, None)
     | None \<Rightarrow>
       (case getProp adapter ''datastores'' of
          Inl e \<Rightarrow> Inl e
        | Inr datastores \<Rightarrow>
       (case getProp datastores datastoreName of
          Inl e \<Rightarrow> Inl e
        | Inr adapterDSEntry \<Rightarrow>
       (case getProp adapterDSEntry ''driver'' of
          Inl e \<Rightarrow> Inl e
        | Inr driver \<Rightarrow>
            if \<not> lodash_isObject driver then
              Inl (AssertionError ''At this point in the code, we should have already verified that the driver is a dictionary-- but it is not!'')
            else
              (case interfaceLayers (lodash_keys driver) of
                 (c, q, t) \<Rightarrow> Inr (Some c, Some q, Some t))))))"

text \<open>
  The builder. \<^verbatim>\<open>checkAdapterCompatibility\<close> lives in another file of the repository
  (\<^verbatim>\<open>lib/check-adapter-compatibility.js\<close>); all the builder needs of it is whether it
  throws, so it is a parameter: \<open>Some e\<close> when it throws \<open>e\<close> for this name and adapter.
  Line 45 reads \<^verbatim>\<open>adapter.adapterApiVersion || 0\<close> into a variable that is never used:
  the read throws on an adapter that is \<^verbatim>\<open>undefined\<close> or \<^verbatim>\<open>null\<close>, and that is all it
  does.
\<close>

definition buildRegisteredDatastoreInstance ::
  "(string \<Rightarrow> jsval \<Rightarrow> js_error option) \<Rightarrow> string \<Rightarrow> jsval \<Rightarrow> jsval \<Rightarrow> js_error + rdi" where
  "buildRegisteredDatastoreInstance checkAdapterCompatibility datastoreName normalizedDatastoreConfig adapter =
    (case getProp adapter ''adapterApiVersion'' of
       Inl e \<Rightarrow> Inl e
     | Inr adapterApiVersion \<Rightarrow>
    (case checkAdapterCompatibility datastoreName adapter of
       Some e \<Rightarrow> Inl e
     | None \<Rightarrow>
       (case detectGenericError datastoreName adapter of
          Inl e \<Rightarrow> Inl e
        | Inr genericError \<Rightarrow>
       (case probeDriver genericError datastoreName adapter of
          Inl e \<Rightarrow> Inl e
        | Inr (c, q, t) \<Rightarrow>
            Inr \<lparr> internalConfig = normalizedDatastoreConfig,
                  rdi_adapter = adapter,
                  rdi_datastoreName = datastoreName,
                  genericDoesNotSupportDatastoreMethodsError = genericError,
                  isConnectable = c,
                  isQueryable = q,
                  isTransactional = t \<rparr>))))"


section \<open>The four datastore methods\<close>

text \<open>
  Each method assembles its options dictionary, merges \<^verbatim>\<open>more\<close> over it, and hands a
  \<^verbatim>\<open>_handleExec\<close> closure to \<^verbatim>\<open>parley\<close>. What \<^verbatim>\<open>_handleExec\<close> does is one of two
  things: it calls \<^verbatim>\<open>done(err)\<close>, or it calls one of the four helpers of
  \<^verbatim>\<open>lib/datastore-method-utils/\<close> with the options and \<^verbatim>\<open>done\<close>. The helpers are not
  entered here: what they do with the driver is theirs.
\<close>

datatype helper =
    helpLeaseConnection
  | helpSendStatement
  | helpSendNativeQuery
  | helpRunTransaction

datatype outcome =
    Done js_error
  | Delegated helper dict

text \<open>\<^verbatim>\<open>!isConnectable\<close> holds for \<^verbatim>\<open>undefined\<close> and for \<^verbatim>\<open>false\<close>.\<close>

fun flagSet :: "bool option \<Rightarrow> bool" where
  "flagSet None = False"
| "flagSet (Some b) = b"

definition interfaceLayerMsg :: "string \<Rightarrow> string \<Rightarrow> string" where
  \<open>interfaceLayerMsg method layer =
    ''Cannot use `.'' @ method @ ''()` with this datastore because the underlying adapter '' @
    ''does not implement the "'' @ layer @ ''" interface layer.  This may be because of a '' @
    ''natural limitation of the technology, or it could just be that the adapter's '' @
    ''developer(s) have not finished implementing one or more driver methods.''\<close>

subsection \<open>leaseConnection (lines 202-242)\<close>

definition leaseConnection_options :: "rdi \<Rightarrow> jsval \<Rightarrow> dict option \<Rightarrow> dict" where
  "leaseConnection_options r during more' =
    (let options = [(''datastoreName'', JStr (rdi_datastoreName r)),
                    (''adapter'', rdi_adapter r),
                    (''during'', during),
                    (''meta'', JUndefined)]
     in case more' of Some m \<Rightarrow> lodash_extend options m | None \<Rightarrow> options)"

definition leaseConnection_handleExec :: "rdi \<Rightarrow> dict \<Rightarrow> outcome" where
  "leaseConnection_handleExec r options =
    (case genericDoesNotSupportDatastoreMethodsError r of
       Some e \<Rightarrow> Done e
     | None \<Rightarrow>
         if \<not> flagSet (isConnectable r) then
           Done (flaverr ''E_NOT_SUPPORTED''
                  (Error None (interfaceLayerMsg ''leaseConnection'' ''connectable'')))
         else Delegated helpLeaseConnection options)"

subsection \<open>sendStatement (lines 258-304)\<close>

definition sendStatement_options :: "rdi \<Rightarrow> jsval \<Rightarrow> dict option \<Rightarrow> dict" where
  "sendStatement_options r statement more' =
    (let options = [(''datastoreName'', JStr (rdi_datastoreName r)),
                    (''adapter'', rdi_adapter r),
                    (''statement'', statement),
                    (''meta'', JUndefined),
                    (''usingConnection'', JUndefined)]
     in case more' of Some m \<Rightarrow> lodash_extend options m | None \<Rightarrow> options)"

definition sendStatement_handleExec :: "rdi \<Rightarrow> dict \<Rightarrow> outcome" where
  "sendStatement_handleExec r options =
    (case genericDoesNotSupportDatastoreMethodsError r of
       Some e \<Rightarrow> Done e
     | None \<Rightarrow>
         if \<not> flagSet (isQueryable r) then
           Done (flaverr ''E_NOT_SUPPORTED''
                  (Error None (interfaceLayerMsg ''sendStatement'' ''queryable'')))
         else Delegated helpSendStatement options)"

subsection \<open>sendNativeQuery (lines 319-365)\<close>

definition sendNativeQuery_options :: "rdi \<Rightarrow> jsval \<Rightarrow> dict option \<Rightarrow> dict" where
  "sendNativeQuery_options r nativeQuery more' =
    (let options = [(''datastoreName'', JStr (rdi_datastoreName r)),
                    (''adapter'', rdi_adapter r),
                    (''nativeQuery'', nativeQuery),
                    (''meta'', JUndefined),
                    (''usingConnection'', JUndefined)]
     in case more' of Some m \<Rightarrow> lodash_extend options m | None \<Rightarrow> options)"

definition sendNativeQuery_handleExec :: "rdi \<Rightarrow> dict \<Rightarrow> outcome" where
  "sendNativeQuery_handleExec r options =
    (case genericDoesNotSupportDatastoreMethodsError r of
       Some e \<Rightarrow> Done e
     | None \<Rightarrow>
         if \<not> flagSet (isQueryable r) then
           Done (flaverr ''E_NOT_SUPPORTED''
                  (Error None (interfaceLayerMsg ''sendNativeQuery'' ''queryable'')))
         else Delegated helpSendNativeQuery options)"

subsection \<open>transaction (lines 381-421)\<close>

definition transaction_options :: "rdi \<Rightarrow> jsval \<Rightarrow> dict option \<Rightarrow> dict" where
  "transaction_options r during more' =
    (let options = [(''datastoreName'', JStr (rdi_datastoreName r)),
                    (''adapter'', rdi_adapter r),
                    (''during'', during),
                    (''meta'', JUndefined)]
     in case more' of Some m \<Rightarrow> lodash_extend options m | None \<Rightarrow> options)"

definition transaction_handleExec :: "rdi \<Rightarrow> dict \<Rightarrow> outcome" where
  "transaction_handleExec r options =
    (case genericDoesNotSupportDatastoreMethodsError r of
       Some e \<Rightarrow> Done e
     | None \<Rightarrow>
         if \<not> flagSet (isTransactional r) then
           Done (flaverr ''E_NOT_SUPPORTED''
                  (Error None (interfaceLayerMsg ''transaction'' ''transactional'')))
         else Delegated helpRunTransaction options)"

subsection \<open>The options object in the store, and the deferred object\<close>

text \<open>
  Every call of a method creates one options object with an object literal, and the
  closures made in that call (\<^verbatim>\<open>_handleExec\<close>, \<^verbatim>\<open>meta\<close>, \<^verbatim>\<open>usingConnection\<close>) hold a
  reference to it. The store is the list of the objects created so far, a reference is an
  index into it. Beside its options a cell records what \<^verbatim>\<open>_handleExec\<close> did once it has
  run (\<open>None\<close> before).

  \<^verbatim>\<open>parley\<close> is a library: with an explicit callback it runs \<^verbatim>\<open>_handleExec\<close> at once and
  returns nothing; without one it returns a deferred object carrying the custom methods,
  and \<^verbatim>\<open>_handleExec\<close> runs when the deferred is executed (\<^verbatim>\<open>.exec(cb)\<close>, \<^verbatim>\<open>.then()\<close>,
  \<^verbatim>\<open>await\<close>), once.
\<close>

record invocation =
  inv_options :: dict
  inv_outcome :: "outcome option"

type_synonym store = "invocation list"

record deferred =
  ref :: nat
  handleExec :: "dict \<Rightarrow> outcome"
  customMethods :: "string list"

definition alloc :: "dict \<Rightarrow> store \<Rightarrow> nat \<times> store" where
  "alloc options s = (length s, s @ [\<lparr> inv_options = options, inv_outcome = None \<rparr>])"

definition exec :: "deferred \<Rightarrow> store \<Rightarrow> store" where
  "exec d s =
    (if ref d < length s \<and> inv_outcome (s ! ref d) = None then
       s[ref d := (s ! ref d)\<lparr> inv_outcome := Some (handleExec d (inv_options (s ! ref d))) \<rparr>]
     else s)"

definition parley ::
  "(dict \<Rightarrow> outcome) \<Rightarrow> bool \<Rightarrow> string list \<Rightarrow> nat \<Rightarrow> store \<Rightarrow> deferred option \<times> store" where
  "parley handleExecFn explicitCb methods r s =
    (let d = \<lparr> ref = r, handleExec = handleExecFn, customMethods = methods \<rparr>
     in if explicitCb then (None, exec d s) else (Some d, s))"




text \<open>
  The methods. The second argument says whether an explicit callback was passed; the
  third is \<^verbatim>\<open>more\<close> (\<^verbatim>\<open>{Dictionary?}\<close>, \<open>None\<close> when left out).
\<close>

definition leaseConnection ::
  "rdi \<Rightarrow> jsval \<Rightarrow> bool \<Rightarrow> dict option \<Rightarrow> store \<Rightarrow> deferred option \<times> store" where
  "leaseConnection r during explicitCb more' s =
    (case alloc (leaseConnection_options r during more') s of
       (a, s') \<Rightarrow> parley (leaseConnection_handleExec r) explicitCb [''meta''] a s')"

definition sendStatement ::
  "rdi \<Rightarrow> jsval \<Rightarrow> bool \<Rightarrow> dict option \<Rightarrow> store \<Rightarrow> deferred option \<times> store" where
  "sendStatement r statement explicitCb more' s =
    (case alloc (sendStatement_options r statement more') s of
       (a, s') \<Rightarrow>
         parley (sendStatement_handleExec r) explicitCb [''meta'', ''usingConnection''] a s')"

definition sendNativeQuery ::
  "rdi \<Rightarrow> jsval \<Rightarrow> bool \<Rightarrow> dict option \<Rightarrow> store \<Rightarrow> deferred option \<times> store" where
  "sendNativeQuery r nativeQuery explicitCb more' s =
    (case alloc (sendNativeQuery_options r nativeQuery more') s of
       (a, s') \<Rightarrow>
         parley (sendNativeQuery_handleExec r) explicitCb [''meta'', ''usingConnection''] a s')"

definition transaction ::
  "rdi \<Rightarrow> jsval \<Rightarrow> bool \<Rightarrow> dict option \<Rightarrow> store \<Rightarrow> deferred option \<times> store" where
  "transaction r during explicitCb more' s =
    (case alloc (transaction_options r during more') s of
       (a, s') \<Rightarrow> parley (transaction_handleExec r) explicitCb [''meta''] a s')"

subsection \<open>The four methods under one name\<close>

datatype operation = LeaseConnection | SendStatement | SendNativeQuery | Transaction

fun invoke ::
  "operation \<Rightarrow> rdi \<Rightarrow> jsval \<Rightarrow> bool \<Rightarrow> dict option \<Rightarrow> store \<Rightarrow> deferred option \<times> store" where
  "invoke LeaseConnection = leaseConnection"
| "invoke SendStatement = sendStatement"
| "invoke SendNativeQuery = sendNativeQuery"
| "invoke Transaction = transaction"

fun handleExecOf :: "operation \<Rightarrow> rdi \<Rightarrow> dict \<Rightarrow> outcome" where
  "handleExecOf LeaseConnection = leaseConnection_handleExec"
| "handleExecOf SendStatement = sendStatement_handleExec"
| "handleExecOf SendNativeQuery = sendNativeQuery_handleExec"
| "handleExecOf Transaction = transaction_handleExec"

fun optionsOf :: "operation \<Rightarrow> rdi \<Rightarrow> jsval \<Rightarrow> dict option \<Rightarrow> dict" where
  "optionsOf LeaseConnection = leaseConnection_options"
| "optionsOf SendStatement = sendStatement_options"
| "optionsOf SendNativeQuery = sendNativeQuery_options"
| "optionsOf Transaction = transaction_options"

fun helperOf :: "operation \<Rightarrow> helper" where
  "helperOf LeaseConnection = helpLeaseConnection"
| "helperOf SendStatement = helpSendStatement"
| "helperOf SendNativeQuery = helpSendNativeQuery"
| "helperOf Transaction = helpRunTransaction"

fun requiredLayer :: "operation \<Rightarrow> rdi \<Rightarrow> bool option" where
  "requiredLayer LeaseConnection r = isConnectable r"
| "requiredLayer SendStatement r = isQueryable r"
| "requiredLayer SendNativeQuery r = isQueryable r"
| "requiredLayer Transaction r = isTransactional r"


fun methodsOf :: "operation \<Rightarrow> string list" where
  "methodsOf LeaseConnection = [''meta'']"
| "methodsOf SendStatement = [''meta'', ''usingConnection'']"
| "methodsOf SendNativeQuery = [''meta'', ''usingConnection'']"
| "methodsOf Transaction = [''meta'']"


section \<open>Adapters to run the builder on\<close>

text \<open>
  The prototype of an object written as a literal, with the methods every such object
  inherits (the \<^verbatim>\<open>__proto__\<close> accessor and the legacy \<^verbatim>\<open>__defineGetter__\<close> family are
  left out), and the object a literal with the given keys makes.
\<close>

definition objectPrototype :: jsval where
  "objectPrototype =
    JObj (map (\<lambda>k. (k, JFun k))
           [''constructor'', ''hasOwnProperty'', ''isPrototypeOf'', ''propertyIsEnumerable'',
            ''toLocaleString'', ''toString'', ''valueOf''])
         JNull"

definition plain :: "dict \<Rightarrow> jsval" where
  "plain own = JObj own objectPrototype"

text \<open>
  A compatibility check that accepts every adapter, and one that accepts the adapters
  with an \<^verbatim>\<open>identity\<close>; an adapter without a \<^verbatim>\<open>datastores\<close> key; adapters that have
  \<^verbatim>\<open>datastores\<close> as an own key, with one entry \<^verbatim>\<open>datastores.default\<close>; and adapters
  that have the same \<^verbatim>\<open>datastores\<close> on their prototype (an instance of a class whose
  prototype carries it, or an object made with \<^verbatim>\<open>Object.create\<close>).
\<close>

definition compatible :: "string \<Rightarrow> jsval \<Rightarrow> js_error option" where
  "compatible datastoreName adapter = None"

definition needsIdentity :: "string \<Rightarrow> jsval \<Rightarrow> js_error option" where
  "needsIdentity datastoreName adapter =
    (if lodash_has adapter ''identity'' then None
     else Some (Error (Some ''E_ADAPTER_NOT_COMPATIBLE'') datastoreName))"

definition bareAdapter :: jsval where
  "bareAdapter = plain [(''identity'', JStr ''sails-example'')]"

definition adapterExposing :: "dict \<Rightarrow> jsval" where
  "adapterExposing entry =
    plain [(''identity'', JStr ''sails-example''),
           (''datastores'', plain [(''default'', plain entry)])]"

definition adapterInheriting :: "dict \<Rightarrow> jsval" where
  "adapterInheriting entry =
    JObj [(''identity'', JStr ''sails-example'')]
         (plain [(''datastores'', plain [(''default'', plain entry)])])"

definition driverWith :: "string list \<Rightarrow> jsval" where
  "driverWith names = plain (map (\<lambda>k. (k, JFun k)) names)"

definition completeEntry :: "string list \<Rightarrow> dict" where
  "completeEntry names =
    [(''manager'', plain []), (''driver'', driverWith names), (''config'', plain [])]"

definition connectableMethods :: "string list" where
  "connectableMethods =
    [''createManager'', ''destroyManager'', ''getConnection'', ''releaseConnection'']"

definition queryableMethods :: "string list" where
  "queryableMethods =
    [''createManager'', ''destroyManager'', ''getConnection'', ''releaseConnection'',
     ''sendNativeQuery'', ''compileStatement'', ''parseNativeQueryResult'',
     ''parseNativeQueryError'']"

definition elevenMethods :: "string list" where
  "elevenMethods =
    [''createManager'', ''destroyManager'', ''getConnection'', ''releaseConnection'',
     ''sendNativeQuery'', ''compileStatement'', ''parseNativeQueryResult'',
     ''parseNativeQueryError'',
     ''beginTransaction'', ''commitTransaction'', ''rollbackTransaction'']"

text \<open>The error of lines 74-80, with the code \<^verbatim>\<open>flaverr\<close> gives it.\<close>

definition notExposedError :: "string \<Rightarrow> js_error" where
  "notExposedError datastoreName =
    Error (Some ''E_NOT_SUPPORTED'') (datastoresNotExposedMsg datastoreName)"

text \<open>
  A state of the variables the four methods close over, given directly: the generic
  error and the three flags.
\<close>

definition closureWith ::
  "js_error option \<Rightarrow> bool option \<Rightarrow> bool option \<Rightarrow> bool option \<Rightarrow> rdi" where
  "closureWith e c q t =
    \<lparr> internalConfig = plain [],
      rdi_adapter = adapterInheriting (completeEntry elevenMethods),
      rdi_datastoreName = ''default'',
      genericDoesNotSupportDatastoreMethodsError = e,
      isConnectable = c, isQueryable = q, isTransactional = t \<rparr>"

text \<open>
  The handle the builder returns for the adapter that inherits \<^verbatim>\<open>datastores\<close> with a
  complete entry and an eleven-method driver (\<open>build_inheriting_eleven\<close> below).
\<close>

definition builtFull :: rdi where
  "builtFull = closureWith None (Some True) (Some True) (Some True)"






section \<open>Facts about the model\<close>

subsection \<open>Merging dictionaries\<close>




subsection \<open>The four methods have one shape\<close>



lemma invoke_unfold:
  "invoke op r arg explicitCb more' s =
    (let d = \<lparr> ref = length s, handleExec = handleExecOf op r, customMethods = methodsOf op \<rparr>;
         s' = s @ [\<lparr> inv_options = optionsOf op r arg more', inv_outcome = None \<rparr>]
     in if explicitCb then (None, exec d s') else (Some d, s'))"
  by (cases op; simp add: leaseConnection_def sendStatement_def sendNativeQuery_def
        transaction_def alloc_def parley_def Let_def)

lemma handleExecOf_unfold:
  "handleExecOf op r options =
    (case genericDoesNotSupportDatastoreMethodsError r of
       Some e \<Rightarrow> Done e
     | None \<Rightarrow>
         if flagSet (requiredLayer op r) then Delegated (helperOf op) options
         else Done (case op of
            LeaseConnection \<Rightarrow>
              Error (Some ''E_NOT_SUPPORTED'') (interfaceLayerMsg ''leaseConnection'' ''connectable'')
          | SendStatement \<Rightarrow>
              Error (Some ''E_NOT_SUPPORTED'') (interfaceLayerMsg ''sendStatement'' ''queryable'')
          | SendNativeQuery \<Rightarrow>
              Error (Some ''E_NOT_SUPPORTED'') (interfaceLayerMsg ''sendNativeQuery'' ''queryable'')
          | Transaction \<Rightarrow>
              Error (Some ''E_NOT_SUPPORTED'') (interfaceLayerMsg ''transaction'' ''transactional'')))"
  by (cases op; simp add: leaseConnection_handleExec_def sendStatement_handleExec_def
        sendNativeQuery_handleExec_def transaction_handleExec_def split: option.splits)

lemma flagSet_iff: "flagSet x = (x = Some True)"
  by (cases x) auto

text \<open>
  The layer checks of lines 222, 279, 340 and 401 themselves: with no generic error and
  the flags a driver with only the four connectable methods is probed to
  (\<open>probe_connectable\<close> below), \<^verbatim>\<open>leaseConnection\<close> calls its helper and the other
  three call \<^verbatim>\<open>done\<close> with the error that names their layer.
\<close>

lemma connectable_only_dispatch:
  "handleExecOf LeaseConnection (closureWith None (Some True) (Some False) (Some False)) opts
     = Delegated helpLeaseConnection opts"
  "handleExecOf SendStatement (closureWith None (Some True) (Some False) (Some False)) opts
     = Done (Error (Some ''E_NOT_SUPPORTED'') (interfaceLayerMsg ''sendStatement'' ''queryable''))"
  "handleExecOf SendNativeQuery (closureWith None (Some True) (Some False) (Some False)) opts
     = Done (Error (Some ''E_NOT_SUPPORTED'')
              (interfaceLayerMsg ''sendNativeQuery'' ''queryable''))"
  "handleExecOf Transaction (closureWith None (Some True) (Some False) (Some False)) opts
     = Done (Error (Some ''E_NOT_SUPPORTED'')
              (interfaceLayerMsg ''transaction'' ''transactional''))"
  by (simp_all add: leaseConnection_handleExec_def sendStatement_handleExec_def
        sendNativeQuery_handleExec_def transaction_handleExec_def closureWith_def)


subsection \<open>What the builder returns\<close>

text \<open>
  Line 73 asks \<^verbatim>\<open>_.has(adapter, 'datastores')\<close> where the comment above it, the message
  it builds and the \<^verbatim>\<open>else\<close> branch (which reads \<^verbatim>\<open>adapter.datastores[datastoreName]\<close>)
  all speak of an adapter that does not have the key. So an adapter that has \<^verbatim>\<open>datastores\<close>
  as an own key always gets the "needs to expose its internal datastores" error, with the
  flags left undefined, whatever its entry holds; an adapter on which \<^verbatim>\<open>datastores\<close>
  reads as \<^verbatim>\<open>undefined\<close> reaches the lookup on \<^verbatim>\<open>undefined\<close>; and the entry is looked at
  only for an adapter that inherits \<^verbatim>\<open>datastores\<close>.
\<close>

lemma build_with_own_datastores:
  assumes "lodash_has adapter ''datastores''" and "chk n adapter = None"
  shows "buildRegisteredDatastoreInstance chk n cfg adapter =
     Inr \<lparr> internalConfig = cfg, rdi_adapter = adapter, rdi_datastoreName = n,
           genericDoesNotSupportDatastoreMethodsError = Some (notExposedError n),
           isConnectable = None, isQueryable = None, isTransactional = None \<rparr>"
proof -
  from assms(1) obtain own proto where "adapter = JObj own proto"
    by (cases adapter) simp_all
  with assms show ?thesis
    by (simp add: buildRegisteredDatastoreInstance_def detectGenericError_def probeDriver_def
          notExposedError_def)
qed

lemma build_when_datastores_nullish:
  assumes "\<not> lodash_has adapter ''datastores''"
      and "nullish (lookupChain adapter ''datastores'')"
  shows "buildRegisteredDatastoreInstance chk n cfg adapter =
     Inl (if nullish adapter then TypeError
          else case chk n adapter of Some e \<Rightarrow> e | None \<Rightarrow> TypeError)"
proof (cases "nullish adapter")
  case True
  then show ?thesis
    by (auto simp: nullish_def buildRegisteredDatastoreInstance_def)
next
  case False
  then have read: "getProp adapter k = Inr (lookupChain adapter k)" for k
    by (cases adapter) (simp_all add: nullish_def)
  have "getProp (lookupChain adapter ''datastores'') n = Inl TypeError"
    using assms(2) by (auto simp: nullish_def)
  then have "detectGenericError n adapter = Inl TypeError"
    using assms(1) by (simp add: detectGenericError_def read)
  then show ?thesis
    using False
    by (simp add: buildRegisteredDatastoreInstance_def read split: option.splits)
qed

lemma build_result:
  assumes "buildRegisteredDatastoreInstance chk n cfg adapter = Inr r"
  shows "detectGenericError n adapter = Inr (genericDoesNotSupportDatastoreMethodsError r)"
    and "probeDriver (genericDoesNotSupportDatastoreMethodsError r) n adapter
           = Inr (isConnectable r, isQueryable r, isTransactional r)"
    and "internalConfig r = cfg" and "rdi_adapter r = adapter" and "rdi_datastoreName r = n"
  using assms
  by (auto simp: buildRegisteredDatastoreInstance_def split: option.splits sum.splits)

lemma build_inheriting_eleven:
  "buildRegisteredDatastoreInstance compatible ''default'' cfg
     (adapterInheriting (completeEntry elevenMethods))
   = Inr (builtFull\<lparr> internalConfig := cfg \<rparr>)"
  by (simp add: buildRegisteredDatastoreInstance_def detectGenericError_def probeDriver_def
        compatible_def adapterInheriting_def completeEntry_def driverWith_def plain_def
        objectPrototype_def elevenMethods_def interfaceLayers_def lodash_difference_def
        builtFull_def closureWith_def)

lemma not_exposed_differs_from_layer_messages:
  "datastoresNotExposedMsg ''default'' \<noteq> interfaceLayerMsg m l"
  by (simp add: datastoresNotExposedMsg_def DOES_NOT_SUPPORT_DIRECT_ACCESS_def
        interfaceLayerMsg_def)

subsection \<open>The interface layers\<close>

lemma interfaceLayers_cumulative:
  "interfaceLayers names = (c, q, t) \<Longrightarrow> (t \<longrightarrow> q) \<and> (q \<longrightarrow> c)"
  by (auto simp: interfaceLayers_def Let_def)

lemma interfaceLayers_iff:
  "interfaceLayers names =
    (set connectableMethods \<subseteq> set names,
     set queryableMethods \<subseteq> set names,
     set elevenMethods \<subseteq> set names)"
  by (auto simp: interfaceLayers_def Let_def lodash_difference_def connectableMethods_def
        queryableMethods_def elevenMethods_def)

lemma probeDriver_under_error:
  "probeDriver (Some e) n adapter = Inr (None, None, None)"
  by (simp add: probeDriver_def)

lemma probeDriver_without_error:
  assumes "probeDriver None n adapter = Inr (c, q, t)"
  shows "\<exists>datastores entry driver.
           getProp adapter ''datastores'' = Inr datastores
         \<and> getProp datastores n = Inr entry
         \<and> getProp entry ''driver'' = Inr driver
         \<and> c = Some (set connectableMethods \<subseteq> set (lodash_keys driver))
         \<and> q = Some (set queryableMethods \<subseteq> set (lodash_keys driver))
         \<and> t = Some (set elevenMethods \<subseteq> set (lodash_keys driver))"
  using assms
  by (auto simp: probeDriver_def interfaceLayers_iff split: sum.splits if_splits)

lemma probe_eleven:
  "probeDriver None ''default'' (adapterExposing (completeEntry elevenMethods))
     = Inr (Some True, Some True, Some True)"
  by (simp add: probeDriver_def adapterExposing_def completeEntry_def driverWith_def
        plain_def elevenMethods_def interfaceLayers_def lodash_difference_def)

lemma probe_connectable:
  "probeDriver None ''default'' (adapterExposing (completeEntry connectableMethods))
     = Inr (Some True, Some False, Some False)"
  by (simp add: probeDriver_def adapterExposing_def completeEntry_def driverWith_def
        plain_def connectableMethods_def interfaceLayers_def lodash_difference_def)

lemma probe_connectable_and_transaction_methods:
  "probeDriver None ''default''
     (adapterExposing (completeEntry (connectableMethods @
        [''beginTransaction'', ''commitTransaction'', ''rollbackTransaction''])))
     = Inr (Some True, Some False, Some False)"
  by (simp add: probeDriver_def adapterExposing_def completeEntry_def driverWith_def
        plain_def connectableMethods_def interfaceLayers_def lodash_difference_def)

subsection \<open>Invocations and the store\<close>




lemma invoke_explicit:
  "invoke op r arg True more' s =
     (None,
      s @ [\<lparr> inv_options = optionsOf op r arg more',
              inv_outcome = Some (handleExecOf op r (optionsOf op r arg more')) \<rparr>])"
  by (simp add: invoke_unfold Let_def exec_def del: handleExecOf.simps optionsOf.simps)




section \<open>The claims\<close>

text \<open>
  C1. The claim: an adapter with no \<^verbatim>\<open>datastores\<close> mapping gets a handle whose four
  methods fail with the structural \<^verbatim>\<open>E_NOT_SUPPORTED\<close> error. The code, on the adapter
  \<^verbatim>\<open>{identity: 'sails-example'}\<close> with the datastore name \<^verbatim>\<open>default\<close>: the builder throws
  a TypeError and returns no handle.
\<close>

theorem bare_adapter_build_throws_TypeError:
  "buildRegisteredDatastoreInstance compatible ''default'' (plain []) bareAdapter
     = Inl TypeError"
proof -
  have "\<not> lodash_has bareAdapter ''datastores''"
    by (simp add: bareAdapter_def plain_def)
  moreover have "nullish (lookupChain bareAdapter ''datastores'')"
    by (simp add: bareAdapter_def plain_def objectPrototype_def nullish_def)
  moreover have "\<not> nullish bareAdapter"
    by (simp add: bareAdapter_def plain_def nullish_def)
  ultimately show ?thesis
    by (simp add: build_when_datastores_nullish compatible_def)
qed

text \<open>
  C2. The claim: with a complete entry whose driver has all eleven methods there is no
  terminal error, and the four methods delegate. The code, on such an adapter (with
  \<^verbatim>\<open>datastores\<close> an own key): the handle carries the "needs to expose its internal
  datastores" error, and every method calls \<^verbatim>\<open>done\<close> with it, whatever the options.
\<close>

theorem eleven_method_driver_never_delegated:
  "\<exists>r. buildRegisteredDatastoreInstance compatible ''default'' (plain [])
          (adapterExposing (completeEntry elevenMethods)) = Inr r
     \<and> genericDoesNotSupportDatastoreMethodsError r = Some (notExposedError ''default'')
     \<and> (\<forall>op options. handleExecOf op r options = Done (notExposedError ''default''))"
  by (simp add: build_with_own_datastores adapterExposing_def plain_def compatible_def
        handleExecOf_unfold)

text \<open>
  C3. The claim: every adapter object without an own \<^verbatim>\<open>datastores\<close> key makes the
  builder throw. It fails for an adapter that inherits \<^verbatim>\<open>datastores\<close>: line 73 looks at
  own keys, line 88 reads through the prototype chain, and for such an adapter with a
  complete entry and an eleven-method driver the builder returns a handle with no generic
  error and the three flags true.
\<close>

theorem inherited_datastores_build_returns_handle:
  "\<not> lodash_has (adapterInheriting (completeEntry elevenMethods)) ''datastores''
   \<and> buildRegisteredDatastoreInstance compatible ''default'' (plain [])
        (adapterInheriting (completeEntry elevenMethods))
       = Inr \<lparr> internalConfig = plain [],
               rdi_adapter = adapterInheriting (completeEntry elevenMethods),
               rdi_datastoreName = ''default'',
               genericDoesNotSupportDatastoreMethodsError = None,
               isConnectable = Some True, isQueryable = Some True,
               isTransactional = Some True \<rparr>"
  by (simp add: build_inheriting_eleven builtFull_def closureWith_def)
     (simp add: adapterInheriting_def)

text \<open>
  C3, amended. An adapter that has no own \<^verbatim>\<open>datastores\<close> key and on which
  \<^verbatim>\<open>adapter.datastores\<close> reads as \<^verbatim>\<open>undefined\<close> or \<^verbatim>\<open>null\<close> (none is inherited either)
  makes the builder throw: a TypeError at line 45 if the adapter itself is \<^verbatim>\<open>undefined\<close>
  or \<^verbatim>\<open>null\<close>, else the error of the compatibility check if that one throws, else the
  TypeError of reading \<^verbatim>\<open>adapter.datastores[datastoreName]\<close> at line 88. No handle is
  returned.
\<close>

theorem undefined_datastores_build_throws:
  assumes "\<not> lodash_has adapter ''datastores''"
      and "nullish (lookupChain adapter ''datastores'')"
  shows "buildRegisteredDatastoreInstance chk n cfg adapter =
           Inl (if nullish adapter then TypeError
                else case chk n adapter of Some e \<Rightarrow> e | None \<Rightarrow> TypeError)
       \<and> (\<forall>r. buildRegisteredDatastoreInstance chk n cfg adapter \<noteq> Inr r)"
  by (simp add: build_when_datastores_nullish [OF assms])

theorem undefined_datastores_build_throws_witness:
  "\<not> lodash_has (plain [(''adapterApiVersion'', JNum 1)]) ''datastores''
   \<and> nullish (lookupChain (plain [(''adapterApiVersion'', JNum 1)]) ''datastores'')
   \<and> buildRegisteredDatastoreInstance compatible ''default'' (plain [])
        (plain [(''adapterApiVersion'', JNum 1)]) = Inl TypeError"
proof -
  have a: "\<not> lodash_has (plain [(''adapterApiVersion'', JNum 1)]) ''datastores''"
    by (simp add: plain_def)
  have b: "nullish (lookupChain (plain [(''adapterApiVersion'', JNum 1)]) ''datastores'')"
    by (simp add: plain_def objectPrototype_def nullish_def)
  have c: "\<not> nullish (plain [(''adapterApiVersion'', JNum 1)])"
    by (simp add: plain_def nullish_def)
  from undefined_datastores_build_throws [OF a b, of compatible "''default''" "plain []"] a b c
  show ?thesis by (simp add: compatible_def)
qed

text \<open>
  C4. The claim: with a driver that has exactly the four connectable methods,
  \<^verbatim>\<open>leaseConnection\<close> reaches its helper and the other three fail with an error naming the
  "queryable" or "transactional" layer. The code, on such an adapter: \<^verbatim>\<open>leaseConnection\<close>
  with an explicit callback calls \<^verbatim>\<open>done\<close> with the generic error and no helper is called;
  the other three fail with that same error, whose message is not a layer message.
\<close>

theorem connectable_driver_leaseConnection_blocked:
  "\<exists>r. buildRegisteredDatastoreInstance compatible ''default'' (plain [])
          (adapterExposing (completeEntry connectableMethods)) = Inr r
     \<and> snd (invoke LeaseConnection r (JFun ''during'') True None [])
         = [\<lparr> inv_options = optionsOf LeaseConnection r (JFun ''during'') None,
              inv_outcome = Some (Done (notExposedError ''default'')) \<rparr>]
     \<and> handleExecOf SendStatement r options = Done (notExposedError ''default'')
     \<and> handleExecOf SendNativeQuery r options = Done (notExposedError ''default'')
     \<and> handleExecOf Transaction r options = Done (notExposedError ''default'')
     \<and> notExposedError ''default''
         \<noteq> Error (Some ''E_NOT_SUPPORTED'') (interfaceLayerMsg ''sendStatement'' ''queryable'')
     \<and> notExposedError ''default''
         \<noteq> Error (Some ''E_NOT_SUPPORTED'') (interfaceLayerMsg ''sendNativeQuery'' ''queryable'')
     \<and> notExposedError ''default''
         \<noteq> Error (Some ''E_NOT_SUPPORTED'') (interfaceLayerMsg ''transaction'' ''transactional'')"
proof -
  let ?a = "adapterExposing (completeEntry connectableMethods)"
  let ?r = "\<lparr> internalConfig = plain [], rdi_adapter = ?a, rdi_datastoreName = ''default'',
              genericDoesNotSupportDatastoreMethodsError = Some (notExposedError ''default''),
              isConnectable = None, isQueryable = None, isTransactional = None \<rparr>"
  have built: "buildRegisteredDatastoreInstance compatible ''default'' (plain []) ?a = Inr ?r"
    by (simp add: build_with_own_datastores adapterExposing_def plain_def compatible_def)
  have blocked: "handleExecOf op ?r opts = Done (notExposedError ''default'')" for op opts
    by (simp add: handleExecOf_unfold)
  have lease: "snd (invoke LeaseConnection ?r (JFun ''during'') True None [])
         = [\<lparr> inv_options = optionsOf LeaseConnection ?r (JFun ''during'') None,
              inv_outcome = Some (Done (notExposedError ''default'')) \<rparr>]"
    unfolding invoke_explicit blocked by simp
  show ?thesis
    using built lease blocked not_exposed_differs_from_layer_messages
    by (simp add: notExposedError_def
          del: invoke.simps handleExecOf.simps optionsOf.simps)
qed

text \<open>
  C5. In every state of the closed-over variables and for each of the four methods:
  when the generic error is set, \<^verbatim>\<open>_handleExec\<close> calls \<^verbatim>\<open>done\<close> with exactly that error,
  whatever the flags, and so a call of the method with an explicit callback ends with that
  error; when \<^verbatim>\<open>_handleExec\<close> calls a helper, the generic error is unset and the flag of
  the method's layer is true, the helper is the method's own and it gets the options
  unchanged; and when either check blocks, \<^verbatim>\<open>done\<close> is called with an error and no
  helper is.
\<close>

theorem checks_come_before_delegation:
  "(genericDoesNotSupportDatastoreMethodsError r = Some e \<longrightarrow>
      handleExecOf op r options = Done e
      \<and> snd (invoke op r arg True more' s)
          = s @ [\<lparr> inv_options = optionsOf op r arg more', inv_outcome = Some (Done e) \<rparr>])
   \<and> (handleExecOf op r options = Delegated h options' \<longrightarrow>
      genericDoesNotSupportDatastoreMethodsError r = None
      \<and> requiredLayer op r = Some True
      \<and> h = helperOf op \<and> options' = options)
   \<and> (genericDoesNotSupportDatastoreMethodsError r \<noteq> None \<or> requiredLayer op r \<noteq> Some True \<longrightarrow>
      (\<exists>err. handleExecOf op r options = Done err))"
proof -
  have blocked: "handleExecOf op r opts = Done e"
    if "genericDoesNotSupportDatastoreMethodsError r = Some e" for opts
    using that by (simp add: handleExecOf_unfold)
  have called: "snd (invoke op r arg True more' s)
          = s @ [\<lparr> inv_options = optionsOf op r arg more', inv_outcome = Some (Done e) \<rparr>]"
    if "genericDoesNotSupportDatastoreMethodsError r = Some e"
    by (simp only: invoke_explicit blocked [OF that]) simp
  have delegated: "genericDoesNotSupportDatastoreMethodsError r = None
      \<and> requiredLayer op r = Some True \<and> h = helperOf op \<and> options' = options"
    if "handleExecOf op r options = Delegated h options'"
    using that by (auto simp: handleExecOf_unfold flagSet_iff split: option.splits if_splits)
  have stopped: "\<exists>err. handleExecOf op r options = Done err"
    if "genericDoesNotSupportDatastoreMethodsError r \<noteq> None \<or> requiredLayer op r \<noteq> Some True"
    using that by (auto simp: handleExecOf_unfold flagSet_iff split: option.splits)
  show ?thesis
    using blocked called delegated stopped by blast
qed

theorem checks_come_before_delegation_witness:
  "(\<exists>r. buildRegisteredDatastoreInstance compatible ''default'' (plain [])
          (adapterExposing (completeEntry elevenMethods)) = Inr r
      \<and> genericDoesNotSupportDatastoreMethodsError r = Some (notExposedError ''default'')
      \<and> handleExecOf Transaction r [] = Done (notExposedError ''default'')
      \<and> snd (invoke Transaction r (JFun ''during'') True None [])
          = [\<lparr> inv_options = optionsOf Transaction r (JFun ''during'') None,
               inv_outcome = Some (Done (notExposedError ''default'')) \<rparr>])
   \<and> handleExecOf SendStatement (closureWith None (Some True) (Some True) (Some False))
        [(''statement'', plain [])] = Delegated helpSendStatement [(''statement'', plain [])]
   \<and> genericDoesNotSupportDatastoreMethodsError
        (closureWith None (Some True) (Some True) (Some False)) = None
   \<and> requiredLayer SendStatement (closureWith None (Some True) (Some True) (Some False))
        = Some True
   \<and> requiredLayer Transaction (closureWith None (Some True) (Some True) (Some False))
        \<noteq> Some True
   \<and> (\<exists>err. handleExecOf Transaction (closureWith None (Some True) (Some True) (Some False)) []
        = Done err)"
proof -
  let ?a = "adapterExposing (completeEntry elevenMethods)"
  let ?r = "\<lparr> internalConfig = plain [], rdi_adapter = ?a, rdi_datastoreName = ''default'',
              genericDoesNotSupportDatastoreMethodsError = Some (notExposedError ''default''),
              isConnectable = None, isQueryable = None, isTransactional = None \<rparr>"
  let ?q = "closureWith None (Some True) (Some True) (Some False)"
  have built: "buildRegisteredDatastoreInstance compatible ''default'' (plain []) ?a = Inr ?r"
    by (simp add: build_with_own_datastores adapterExposing_def plain_def compatible_def)
  have 1: "handleExecOf Transaction ?r [] = Done (notExposedError ''default'')
         \<and> snd (invoke Transaction ?r (JFun ''during'') True None [])
          = [\<lparr> inv_options = optionsOf Transaction ?r (JFun ''during'') None,
               inv_outcome = Some (Done (notExposedError ''default'')) \<rparr>]"
    using checks_come_before_delegation
            [where r = ?r and e = "notExposedError ''default''" and op = Transaction
               and options = "[]" and arg = "JFun ''during''" and more' = None and s = "[]"]
    by simp
  have 2: "handleExecOf SendStatement ?q [(''statement'', plain [])]
             = Delegated helpSendStatement [(''statement'', plain [])]"
    by (simp add: sendStatement_handleExec_def closureWith_def)
  have 3: "genericDoesNotSupportDatastoreMethodsError ?q = None
           \<and> requiredLayer SendStatement ?q = Some True"
    using checks_come_before_delegation
            [where r = ?q and op = SendStatement and options = "[(''statement'', plain [])]"
               and h = helpSendStatement and options' = "[(''statement'', plain [])]"] 2
    by simp
  have 4: "requiredLayer Transaction ?q \<noteq> Some True"
    by (simp add: closureWith_def)
  have 5: "\<exists>err. handleExecOf Transaction ?q [] = Done err"
    using checks_come_before_delegation
            [where r = ?q and op = Transaction and options = "[]"] 4
    by blast
  show ?thesis
    using built 1 2 3 4 5
    by (simp del: handleExecOf.simps requiredLayer.simps invoke.simps optionsOf.simps)
qed

text \<open>
  C6. The claim: an entry that lacks \<^verbatim>\<open>manager\<close>, \<^verbatim>\<open>driver\<close> or \<^verbatim>\<open>config\<close> gives the
  terminal error with the "missing one or more mandatory keys" message. The code, on an
  adapter whose entry has \<^verbatim>\<open>driver\<close> and \<^verbatim>\<open>config\<close> but no \<^verbatim>\<open>manager\<close>: the terminal error
  is an \<^verbatim>\<open>E_NOT_SUPPORTED\<close> one, but its message is the "needs to expose its internal
  datastores" one, which is a different text.
\<close>

theorem entry_without_manager_gets_other_message:
  "\<exists>r. buildRegisteredDatastoreInstance compatible ''default'' (plain [])
          (adapterExposing [(''driver'', driverWith elevenMethods), (''config'', plain [])])
        = Inr r
     \<and> genericDoesNotSupportDatastoreMethodsError r
         = Some (Error (Some ''E_NOT_SUPPORTED'') (datastoresNotExposedMsg ''default''))
     \<and> datastoresNotExposedMsg ''default'' \<noteq> incompleteReferenceMsg ''default''"
  by (simp add: build_with_own_datastores adapterExposing_def plain_def compatible_def
        notExposedError_def datastoresNotExposedMsg_def incompleteReferenceMsg_def
        DOES_NOT_SUPPORT_DIRECT_ACCESS_def)

text \<open>
  C7. Whenever the probing block of lines 137-166 returns flags, for any generic-error
  state, datastore name and adapter, they are cumulative: a true \<^verbatim>\<open>isTransactional\<close>
  comes with a true \<^verbatim>\<open>isQueryable\<close>, and a true \<^verbatim>\<open>isQueryable\<close> with a true
  \<^verbatim>\<open>isConnectable\<close>. The same holds of the flags of every handle the builder returns.
\<close>

theorem capability_flags_cumulative:
  "(probeDriver genericError datastoreName adapter = Inr (c, q, t) \<longrightarrow>
      (t = Some True \<longrightarrow> q = Some True) \<and> (q = Some True \<longrightarrow> c = Some True))
   \<and> (buildRegisteredDatastoreInstance chk datastoreName cfg adapter = Inr r \<longrightarrow>
      (isTransactional r = Some True \<longrightarrow> isQueryable r = Some True)
      \<and> (isQueryable r = Some True \<longrightarrow> isConnectable r = Some True))"
proof -
  have probed: "(t = Some True \<longrightarrow> q = Some True) \<and> (q = Some True \<longrightarrow> c = Some True)"
    if "probeDriver g datastoreName adapter = Inr (c, q, t)" for g c q t
    using that
    by (auto simp: probeDriver_def split: option.splits sum.splits if_splits prod.splits
             dest: interfaceLayers_cumulative)
  have built: "(isTransactional r = Some True \<longrightarrow> isQueryable r = Some True)
      \<and> (isQueryable r = Some True \<longrightarrow> isConnectable r = Some True)"
    if "buildRegisteredDatastoreInstance chk datastoreName cfg adapter = Inr r"
    using probed [OF build_result(2) [OF that]] .
  show ?thesis
    using probed built by blast
qed

theorem capability_flags_cumulative_witness:
  "probeDriver None ''default'' (adapterExposing (completeEntry elevenMethods))
     = Inr (Some True, Some True, Some True)
   \<and> probeDriver None ''default'' (adapterExposing (completeEntry connectableMethods))
     = Inr (Some True, Some False, Some False)
   \<and> probeDriver None ''default''
       (adapterExposing (completeEntry (connectableMethods @
          [''beginTransaction'', ''commitTransaction'', ''rollbackTransaction''])))
     = Inr (Some True, Some False, Some False)
   \<and> (\<exists>r. buildRegisteredDatastoreInstance compatible ''default'' (plain [])
          (adapterExposing (completeEntry elevenMethods)) = Inr r
        \<and> isTransactional r \<noteq> Some True \<and> isQueryable r \<noteq> Some True)
   \<and> (\<exists>r. buildRegisteredDatastoreInstance compatible ''default'' (plain [])
          (adapterInheriting (completeEntry elevenMethods)) = Inr r
        \<and> isTransactional r = Some True \<and> isQueryable r = Some True
        \<and> isConnectable r = Some True)"
proof -
  let ?a = "adapterExposing (completeEntry elevenMethods)"
  let ?r = "\<lparr> internalConfig = plain [], rdi_adapter = ?a, rdi_datastoreName = ''default'',
              genericDoesNotSupportDatastoreMethodsError = Some (notExposedError ''default''),
              isConnectable = None, isQueryable = None, isTransactional = None \<rparr>"
  let ?b = "adapterInheriting (completeEntry elevenMethods)"
  let ?f = "builtFull\<lparr> internalConfig := plain [] \<rparr>"
  have built: "buildRegisteredDatastoreInstance compatible ''default'' (plain []) ?a = Inr ?r"
    by (simp add: build_with_own_datastores adapterExposing_def plain_def compatible_def)
  have full: "buildRegisteredDatastoreInstance compatible ''default'' (plain []) ?b = Inr ?f"
    by (rule build_inheriting_eleven)
  have t: "isTransactional ?f = Some True"
    by (simp add: builtFull_def closureWith_def)
  have "isQueryable ?f = Some True \<and> isConnectable ?f = Some True"
    using capability_flags_cumulative
            [where chk = compatible and datastoreName = "''default''" and cfg = "plain []"
               and adapter = ?b and r = ?f] full t
    by blast
  with t full have 2: "\<exists>r. buildRegisteredDatastoreInstance compatible ''default'' (plain [])
          ?b = Inr r
        \<and> isTransactional r = Some True \<and> isQueryable r = Some True
        \<and> isConnectable r = Some True"
    by blast
  have "Some True = Some True \<and> Some True = Some True"
    using capability_flags_cumulative
            [where genericError = None and datastoreName = "''default''" and adapter = ?a
               and c = "Some True" and q = "Some True" and t = "Some True"]
          probe_eleven
    by blast
  with built 2 probe_eleven probe_connectable probe_connectable_and_transaction_methods
  show ?thesis by simp
qed

text \<open>
  C8. Take two calls of the builder with the same datastore name and adapter. The
  compatibility check is the one thing a call consults that is not under this file's
  control, so each call gets a check of its own, and each its own config (the same one in
  particular). If both return a handle, the two handles have the same three flags and the
  same generic error. Each handle refers to the adapter and the config it was given,
  unchanged. Its generic error is the one lines 73-118 find for this name and adapter;
  under a generic error the three flags are undefined, and otherwise they say whether the
  keys of \<^verbatim>\<open>adapter.datastores[datastoreName].driver\<close> include the four, the eight and
  the eleven method names.
\<close>

theorem build_is_deterministic:
  assumes "buildRegisteredDatastoreInstance chk1 n cfg1 adapter = Inr r1"
      and "buildRegisteredDatastoreInstance chk2 n cfg2 adapter = Inr r2"
  shows "isConnectable r1 = isConnectable r2 \<and> isQueryable r1 = isQueryable r2
       \<and> isTransactional r1 = isTransactional r2
       \<and> genericDoesNotSupportDatastoreMethodsError r1
           = genericDoesNotSupportDatastoreMethodsError r2
       \<and> rdi_adapter r1 = adapter \<and> rdi_adapter r2 = adapter
       \<and> internalConfig r1 = cfg1 \<and> internalConfig r2 = cfg2
       \<and> detectGenericError n adapter = Inr (genericDoesNotSupportDatastoreMethodsError r1)
       \<and> (genericDoesNotSupportDatastoreMethodsError r1 \<noteq> None \<longrightarrow>
            isConnectable r1 = None \<and> isQueryable r1 = None \<and> isTransactional r1 = None)
       \<and> (genericDoesNotSupportDatastoreMethodsError r1 = None \<longrightarrow>
            (\<exists>datastores entry driver.
                getProp adapter ''datastores'' = Inr datastores
              \<and> getProp datastores n = Inr entry
              \<and> getProp entry ''driver'' = Inr driver
              \<and> isConnectable r1
                  = Some (set connectableMethods \<subseteq> set (lodash_keys driver))
              \<and> isQueryable r1
                  = Some (set queryableMethods \<subseteq> set (lodash_keys driver))
              \<and> isTransactional r1
                  = Some (set elevenMethods \<subseteq> set (lodash_keys driver))))"
proof -
  note a = build_result [OF assms(1)]
  note b = build_result [OF assms(2)]
  have err: "genericDoesNotSupportDatastoreMethodsError r1
           = genericDoesNotSupportDatastoreMethodsError r2"
    using a(1) b(1) by simp
  have flags: "isConnectable r1 = isConnectable r2 \<and> isQueryable r1 = isQueryable r2
       \<and> isTransactional r1 = isTransactional r2"
    using a(2) b(2) err by simp
  have under: "isConnectable r1 = None \<and> isQueryable r1 = None \<and> isTransactional r1 = None"
    if "genericDoesNotSupportDatastoreMethodsError r1 \<noteq> None"
    using that a(2) by (auto simp: probeDriver_under_error)
  have without: "\<exists>datastores entry driver.
                getProp adapter ''datastores'' = Inr datastores
              \<and> getProp datastores n = Inr entry
              \<and> getProp entry ''driver'' = Inr driver
              \<and> isConnectable r1
                  = Some (set connectableMethods \<subseteq> set (lodash_keys driver))
              \<and> isQueryable r1
                  = Some (set queryableMethods \<subseteq> set (lodash_keys driver))
              \<and> isTransactional r1
                  = Some (set elevenMethods \<subseteq> set (lodash_keys driver))"
    if "genericDoesNotSupportDatastoreMethodsError r1 = None"
    using probeDriver_without_error [of n adapter "isConnectable r1" "isQueryable r1"
            "isTransactional r1"] a(2) that
    by simp
  show ?thesis
    using err flags a(1,3,4) b(3,4) under without by blast
qed

theorem build_is_deterministic_witness:
  "buildRegisteredDatastoreInstance compatible ''default'' (plain [])
       (adapterInheriting (completeEntry elevenMethods))
     = Inr (builtFull\<lparr> internalConfig := plain [] \<rparr>)
   \<and> buildRegisteredDatastoreInstance needsIdentity ''default'' (plain [(''url'', JStr ''x'')])
       (adapterInheriting (completeEntry elevenMethods))
     = Inr (builtFull\<lparr> internalConfig := plain [(''url'', JStr ''x'')] \<rparr>)
   \<and> genericDoesNotSupportDatastoreMethodsError (builtFull\<lparr> internalConfig := plain [] \<rparr>)
       = None
   \<and> isConnectable (builtFull\<lparr> internalConfig := plain [] \<rparr>) = Some True
   \<and> isQueryable (builtFull\<lparr> internalConfig := plain [] \<rparr>) = Some True
   \<and> isTransactional (builtFull\<lparr> internalConfig := plain [] \<rparr>) = Some True
   \<and> isTransactional (builtFull\<lparr> internalConfig := plain [(''url'', JStr ''x'')] \<rparr>)
       = Some True
   \<and> (\<exists>r1 r2. buildRegisteredDatastoreInstance compatible ''default'' (plain [])
                (adapterExposing (completeEntry elevenMethods)) = Inr r1
        \<and> buildRegisteredDatastoreInstance needsIdentity ''default'' (plain [])
                (adapterExposing (completeEntry elevenMethods)) = Inr r2
        \<and> genericDoesNotSupportDatastoreMethodsError r1 = Some (notExposedError ''default'')
        \<and> genericDoesNotSupportDatastoreMethodsError r2 = Some (notExposedError ''default'')
        \<and> isTransactional r1 = None \<and> isTransactional r2 = None)"
proof -
  let ?b = "adapterInheriting (completeEntry elevenMethods)"
  let ?a = "adapterExposing (completeEntry elevenMethods)"
  let ?cfg = "plain [(''url'', JStr ''x'')]"
  let ?r = "\<lparr> internalConfig = plain [], rdi_adapter = ?a, rdi_datastoreName = ''default'',
              genericDoesNotSupportDatastoreMethodsError = Some (notExposedError ''default''),
              isConnectable = None, isQueryable = None, isTransactional = None \<rparr>"
  have one: "buildRegisteredDatastoreInstance compatible ''default'' (plain []) ?b
               = Inr (builtFull\<lparr> internalConfig := plain [] \<rparr>)"
    by (rule build_inheriting_eleven)
  have two: "buildRegisteredDatastoreInstance needsIdentity ''default'' ?cfg ?b
               = Inr (builtFull\<lparr> internalConfig := ?cfg \<rparr>)"
    by (simp add: buildRegisteredDatastoreInstance_def detectGenericError_def probeDriver_def
          needsIdentity_def adapterInheriting_def completeEntry_def driverWith_def plain_def
          objectPrototype_def elevenMethods_def interfaceLayers_def lodash_difference_def
          builtFull_def closureWith_def)
  have e: "genericDoesNotSupportDatastoreMethodsError (builtFull\<lparr> internalConfig := plain [] \<rparr>)
             = None"
    by (simp add: builtFull_def closureWith_def)
  have t2: "isTransactional (builtFull\<lparr> internalConfig := ?cfg \<rparr>) = Some True"
    by (simp add: builtFull_def closureWith_def)
  have k: "lodash_keys (driverWith elevenMethods) = elevenMethods"
    by (simp add: driverWith_def plain_def comp_def)
  have sub: "set connectableMethods \<subseteq> set elevenMethods"
            "set queryableMethods \<subseteq> set elevenMethods"
    by (auto simp: connectableMethods_def queryableMethods_def elevenMethods_def)
  have drv: "getProp ?b ''datastores'' = Inr ds \<Longrightarrow> getProp ds ''default'' = Inr en
             \<Longrightarrow> getProp en ''driver'' = Inr dr \<Longrightarrow> dr = driverWith elevenMethods"
    for ds en dr
    by (auto simp: adapterInheriting_def completeEntry_def plain_def)
  from build_is_deterministic [OF one two] e
  obtain dr where d: "dr = driverWith elevenMethods"
      and c1: "isConnectable (builtFull\<lparr> internalConfig := plain [] \<rparr>)
                 = Some (set connectableMethods \<subseteq> set (lodash_keys dr))"
      and q1: "isQueryable (builtFull\<lparr> internalConfig := plain [] \<rparr>)
                 = Some (set queryableMethods \<subseteq> set (lodash_keys dr))"
      and t1: "isTransactional (builtFull\<lparr> internalConfig := plain [] \<rparr>)
                 = Some (set elevenMethods \<subseteq> set (lodash_keys dr))"
    using drv by blast
  have flags: "isConnectable (builtFull\<lparr> internalConfig := plain [] \<rparr>) = Some True
             \<and> isQueryable (builtFull\<lparr> internalConfig := plain [] \<rparr>) = Some True
             \<and> isTransactional (builtFull\<lparr> internalConfig := plain [] \<rparr>) = Some True"
    using c1 q1 t1 sub unfolding d k by simp
  have own1: "buildRegisteredDatastoreInstance compatible ''default'' (plain []) ?a = Inr ?r"
    by (simp add: build_with_own_datastores adapterExposing_def plain_def compatible_def)
  have own2: "buildRegisteredDatastoreInstance needsIdentity ''default'' (plain []) ?a = Inr ?r"
    by (simp add: build_with_own_datastores adapterExposing_def plain_def needsIdentity_def)
  have own: "\<exists>r1 r2. buildRegisteredDatastoreInstance compatible ''default'' (plain [])
                ?a = Inr r1
        \<and> buildRegisteredDatastoreInstance needsIdentity ''default'' (plain []) ?a = Inr r2
        \<and> genericDoesNotSupportDatastoreMethodsError r1 = Some (notExposedError ''default'')
        \<and> genericDoesNotSupportDatastoreMethodsError r2 = Some (notExposedError ''default'')
        \<and> isTransactional r1 = None \<and> isTransactional r2 = None"
    using own1 own2 by simp
  show ?thesis
    using one two e flags t2 own by (intro conjI) simp_all
qed





end
